theory Spec2Isabelle
  imports Complex_Main "HOL-Library.Sublist"
begin

section \<open>JavaScript values\<close>

text \<open>
  The front end is untyped JavaScript: what arrives on the socket and what the upload
  endpoint answers is whatever \<^verbatim>\<open>JSON.parse\<close> built. The values are modelled as they
  are at run time. A number is an IEEE double: a finite value, an infinity (which
  \<^verbatim>\<open>JSON.parse\<close> gives for a literal beyond the double range) or NaN. An object is the
  list of its own properties, keys distinct, as \<^verbatim>\<open>JSON.parse\<close> leaves them.
\<close>

datatype jsnum = Finite real | PosInf | NegInf | NaN

datatype jsval =
    JUndefined
  | JNull
  | JBool bool
  | JNum jsnum
  | JStr string
  | JArr "jsval list"
  | JObj "(string \<times> jsval) list"

datatype js_error = SyntaxError | TypeError | AxiosError

text \<open>
  \<^verbatim>\<open>v.k\<close>: reading a property of \<^verbatim>\<open>undefined\<close> or \<^verbatim>\<open>null\<close> throws a TypeError; an object
  gives its own property or \<^verbatim>\<open>undefined\<close>; every other value gives \<^verbatim>\<open>undefined\<close>. The
  program reads only the keys \<^verbatim>\<open>type\<close>, \<^verbatim>\<open>data\<close>, \<^verbatim>\<open>response\<close>, \<^verbatim>\<open>chart_data\<close>, \<^verbatim>\<open>layout\<close>,
  \<^verbatim>\<open>success\<close>, \<^verbatim>\<open>message\<close>, \<^verbatim>\<open>file_path\<close> and \<^verbatim>\<open>load_result\<close>, none of which a built-in
  prototype of strings, numbers, booleans, arrays or plain objects defines.
\<close>

fun get_prop :: "jsval \<Rightarrow> string \<Rightarrow> js_error + jsval" where
  "get_prop JUndefined k = Inl TypeError"
| "get_prop JNull k = Inl TypeError"
| "get_prop (JObj kvs) k = Inr (case map_of kvs k of None \<Rightarrow> JUndefined | Some v \<Rightarrow> v)"
| "get_prop v k = Inr JUndefined"

text \<open>\<^verbatim>\<open>v?.k\<close>: \<^verbatim>\<open>undefined\<close> when \<^verbatim>\<open>v\<close> is \<^verbatim>\<open>undefined\<close> or \<^verbatim>\<open>null\<close>.\<close>

fun opt_prop :: "jsval \<Rightarrow> string \<Rightarrow> jsval" where
  "opt_prop (JObj kvs) k = (case map_of kvs k of None \<Rightarrow> JUndefined | Some v \<Rightarrow> v)"
| "opt_prop v k = JUndefined"

text \<open>The truthiness that \<^verbatim>\<open>if (v)\<close>, \<^verbatim>\<open>!v\<close>, \<^verbatim>\<open>a && b\<close> and \<^verbatim>\<open>a || b\<close> test.\<close>

fun truthy :: "jsval \<Rightarrow> bool" where
  "truthy JUndefined = False"
| "truthy JNull = False"
| "truthy (JBool b) = b"
| "truthy (JNum (Finite r)) = (r \<noteq> 0)"
| "truthy (JNum NaN) = False"
| "truthy (JNum n) = True"
| "truthy (JStr s) = (s \<noteq> [])"
| "truthy (JArr vs) = True"
| "truthy (JObj kvs) = True"

section \<open>The state of the application\<close>

datatype sender = User | Assistant

record message =
  msg_id :: int
  msg_sender :: sender
  msg_text :: jsval
  msg_timestamp :: int

text \<open>
  The three \<^verbatim>\<open>useState\<close> cells of \<^verbatim>\<open>App\<close>: \<^verbatim>\<open>messages\<close> starts as \<^verbatim>\<open>[]\<close>, the other two
  as \<^verbatim>\<open>null\<close>.
\<close>

record app_state =
  messages :: "message list"
  currentChart :: jsval
  uploadedFile :: jsval

text \<open>
  \<^verbatim>\<open>Date.now()\<close> and \<^verbatim>\<open>new Date()\<close> are read once for each appended message; the two
  readings are inputs of the model.
\<close>

record clock =
  date_now :: int
  new_date :: int

text \<open>
  The singleton \<^verbatim>\<open>ApiService\<close>. \<^verbatim>\<open>sockets\<close> holds the \<^verbatim>\<open>readyState\<close> of every WebSocket
  the service has constructed, in order of construction, and \<^verbatim>\<open>ws\<close> refers to one of
  them by its position. Every one of these sockets carries the four handlers that
  \<^verbatim>\<open>connectWebSocket\<close> installs. \<^verbatim>\<open>timers\<close> holds the delay, in milliseconds, of each
  pending \<^verbatim>\<open>setTimeout\<close>; the callback of each is
  \<^verbatim>\<open>() => this.connectWebSocket(onMessage)\<close>, the only one the program schedules.
\<close>

datatype ready_state = CONNECTING | OPEN | CLOSING | CLOSED

record api_service =
  ws :: "nat option"
  sockets :: "ready_state list"
  timers :: "nat list"

text \<open>
  What the handlers do, in the order in which they do it: the state setters of \<^verbatim>\<open>App\<close>,
  \<^verbatim>\<open>ws.send\<close> (the socket and the value whose \<^verbatim>\<open>JSON.stringify\<close> text is sent), and the
  notifications of antd's \<^verbatim>\<open>message\<close>. A call of \<^verbatim>\<open>setMessages\<close> is recorded with the message
  its updater appends, or, when the updater throws as React runs it, with what it throws.
  Console output is not recorded.
\<close>

datatype effect =
    Set_messages message
  | Set_messages_throws js_error
  | Set_currentChart jsval
  | Set_uploadedFile jsval
  | Ws_send nat jsval
  | Message_success
  | Message_error jsval
  | Message_error_upload_failed

record page =
  app :: app_state
  api :: api_service
  effects :: "effect list"

definition initial_app :: app_state where
  "initial_app = \<lparr>messages = [], currentChart = JNull, uploadedFile = JNull\<rparr>"

definition initial_api :: api_service where
  "initial_api = \<lparr>ws = None, sockets = [], timers = []\<rparr>"

definition initial_page :: page where
  "initial_page = \<lparr>app = initial_app, api = initial_api, effects = []\<rparr>"

subsection \<open>The state setters\<close>

text \<open>
  \<^verbatim>\<open>setMessages(prev => [...prev, m])\<close>, \<^verbatim>\<open>setCurrentChart(c)\<close> and \<^verbatim>\<open>setUploadedFile(f)\<close>.
  React applies queued updates in the order of the calls, so each is applied at once.
  The call of \<^verbatim>\<open>setMessages\<close> itself never throws: the updater, and with it every read
  inside the message it builds, runs when React applies the update. An updater that
  throws there appends nothing (\<open>setMessages_throws\<close>).
\<close>

definition setMessages_append :: "message \<Rightarrow> page \<Rightarrow> page" where
  "setMessages_append m pg =
     pg\<lparr>app := (app pg)\<lparr>messages := messages (app pg) @ [m]\<rparr>,
        effects := effects pg @ [Set_messages m]\<rparr>"

definition setMessages_throws :: "js_error \<Rightarrow> page \<Rightarrow> page" where
  "setMessages_throws e pg = pg\<lparr>effects := effects pg @ [Set_messages_throws e]\<rparr>"

definition setCurrentChart :: "jsval \<Rightarrow> page \<Rightarrow> page" where
  "setCurrentChart c pg =
     pg\<lparr>app := (app pg)\<lparr>currentChart := c\<rparr>,
        effects := effects pg @ [Set_currentChart c]\<rparr>"

definition setUploadedFile :: "jsval \<Rightarrow> page \<Rightarrow> page" where
  "setUploadedFile f pg =
     pg\<lparr>app := (app pg)\<lparr>uploadedFile := f\<rparr>,
        effects := effects pg @ [Set_uploadedFile f]\<rparr>"

section \<open>App\<close>

text \<open>
  A handler either returns, \<open>Inr\<close> with the page it leaves, or throws, \<open>Inl\<close> with the
  exception and the page as it is at the throw.

  The callback \<^verbatim>\<open>App\<close> passes to \<^verbatim>\<open>connectWebSocket\<close>, statement by statement. \<^verbatim>\<open>data.type\<close>
  throws when the parsed frame is \<^verbatim>\<open>null\<close>. \<^verbatim>\<open>setMessages\<close> is called next; the read of
  \<^verbatim>\<open>response.response\<close> is inside its updater, which throws when \<^verbatim>\<open>data.data\<close> is missing
  or \<^verbatim>\<open>null\<close>. Then \<^verbatim>\<open>response.chart_data\<close> is read, and throws in the same case, out of
  the callback. Nothing in the callback catches.
\<close>

definition App_onMessage :: "clock \<Rightarrow> jsval \<Rightarrow> page \<Rightarrow> js_error \<times> page + page" where
  "App_onMessage clk data pg =
     (case get_prop data ''type'' of
        Inl e \<Rightarrow> Inl (e, pg)
      | Inr ty \<Rightarrow>
          if ty = JStr ''response'' then
            (case get_prop data ''data'' of
               Inl e \<Rightarrow> Inl (e, pg)
             | Inr response \<Rightarrow>
                 (let pg1 =
                        (case get_prop response ''response'' of
                           Inl e \<Rightarrow> setMessages_throws e pg
                         | Inr reply \<Rightarrow>
                             setMessages_append
                               \<lparr>msg_id = date_now clk, msg_sender = Assistant,
                                msg_text = reply, msg_timestamp = new_date clk\<rparr> pg)
                  in case get_prop response ''chart_data'' of
                       Inl e \<Rightarrow> Inl (e, pg1)
                     | Inr cd \<Rightarrow>
                         if truthy cd then Inr (setCurrentChart cd pg1) else Inr pg1))
          else Inr pg)"

section \<open>ChartDisplay\<close>

text \<open>
  \<^verbatim>\<open>JSON.parse\<close> is the platform's; it is a parameter \<open>parse\<close> of every definition
  that calls it, applied to the argument as the program passes it (a value that is not
  a string is converted by \<^verbatim>\<open>JSON.parse\<close> itself). \<open>Inl\<close> is the exception it throws.

  The element \<^verbatim>\<open>ChartDisplay\<close> returns is a \<^verbatim>\<open>Card\<close> around one \<^verbatim>\<open>Plot\<close>, whose \<^verbatim>\<open>data\<close> is
  \<^verbatim>\<open>plotData.data\<close> and whose \<^verbatim>\<open>layout\<close> is \<^verbatim>\<open>plotData.layout\<close> spread under the fixed
  \<^verbatim>\<open>autosize\<close>, \<^verbatim>\<open>width\<close> and \<^verbatim>\<open>height\<close>; the element is recorded by these two fields of
  the decoded payload. \<open>None\<close> is \<^verbatim>\<open>return null\<close>.
\<close>

datatype element = Card_Plot (plot_data: jsval) (plot_layout: jsval)

text \<open>The body of the \<^verbatim>\<open>try\<close> block.\<close>

definition ChartDisplay_try ::
  "(jsval \<Rightarrow> js_error + jsval) \<Rightarrow> jsval \<Rightarrow> js_error + element" where
  "ChartDisplay_try parse cd =
     (case parse cd of
        Inl e \<Rightarrow> Inl e
      | Inr plotData \<Rightarrow>
          (case get_prop plotData ''data'' of
             Inl e \<Rightarrow> Inl e
           | Inr d \<Rightarrow>
               (case get_prop plotData ''layout'' of
                  Inl e \<Rightarrow> Inl e
                | Inr l \<Rightarrow> Inr (Card_Plot d l))))"

definition ChartDisplay ::
  "(jsval \<Rightarrow> js_error + jsval) \<Rightarrow> jsval \<Rightarrow> element option" where
  "ChartDisplay parse chartData =
     (if \<not> truthy chartData then None
      else case get_prop chartData ''chart_data'' of
             Inl e \<Rightarrow> None
           | Inr cd \<Rightarrow>
               if \<not> truthy cd then None
               else (case ChartDisplay_try parse cd of
                       Inl e \<Rightarrow> None
                     | Inr el \<Rightarrow> Some el))"

text \<open>
  The chart section of \<^verbatim>\<open>App\<close>'s render:
  \<^verbatim>\<open>{currentChart && (<div className="chart-section"><ChartDisplay .../></div>)}\<close>.
  The result is the chart drawn, if any.
\<close>

definition chart_section :: "(jsval \<Rightarrow> js_error + jsval) \<Rightarrow> app_state \<Rightarrow> element option" where
  "chart_section parse st =
     (if truthy (currentChart st) then ChartDisplay parse (currentChart st) else None)"

section \<open>ApiService\<close>

text \<open>
  \<^verbatim>\<open>connectWebSocket(onMessage)\<close>: a new WebSocket, which starts in \<^verbatim>\<open>CONNECTING\<close>, is
  stored in \<^verbatim>\<open>this.ws\<close> and given its four handlers.
\<close>

definition connectWebSocket :: "api_service \<Rightarrow> api_service" where
  "connectWebSocket s =
     s\<lparr>ws := Some (length (sockets s)), sockets := sockets s @ [CONNECTING]\<rparr>"

text \<open>
  The handlers of socket \<open>i\<close>. \<^verbatim>\<open>onopen\<close> and \<^verbatim>\<open>onerror\<close> only write to the console.
  \<^verbatim>\<open>onclose\<close> calls \<^verbatim>\<open>setTimeout(() => this.connectWebSocket(onMessage), 5000)\<close>, whatever
  closed the socket.
\<close>

definition ws_onopen :: "nat \<Rightarrow> api_service \<Rightarrow> api_service" where
  "ws_onopen i s = s"

definition ws_onerror :: "nat \<Rightarrow> api_service \<Rightarrow> api_service" where
  "ws_onerror i s = s"

definition ws_onclose :: "nat \<Rightarrow> api_service \<Rightarrow> api_service" where
  "ws_onclose i s = s\<lparr>timers := timers s @ [5000]\<rparr>"

text \<open>
  \<^verbatim>\<open>onmessage\<close>: \<^verbatim>\<open>JSON.parse(event.data)\<close>, then the callback; \<^verbatim>\<open>event.data\<close> is the text of
  the frame. There is no \<^verbatim>\<open>try\<close>: what \<^verbatim>\<open>JSON.parse\<close> or the callback throws leaves the
  handler.
\<close>

definition ws_onmessage ::
  "(jsval \<Rightarrow> js_error + jsval) \<Rightarrow> (jsval \<Rightarrow> page \<Rightarrow> js_error \<times> page + page) \<Rightarrow> string
     \<Rightarrow> page \<Rightarrow> js_error \<times> page + page" where
  "ws_onmessage parse onMessage event_data pg =
     (case parse (JStr event_data) of
        Inl e \<Rightarrow> Inl (e, pg)
      | Inr data \<Rightarrow> onMessage data pg)"

text \<open>
  The browser's \<^verbatim>\<open>WebSocket.close()\<close>: nothing on a socket that is closing or closed,
  otherwise the socket goes to \<^verbatim>\<open>CLOSING\<close>; its close event is fired later.
\<close>

definition WebSocket_close :: "nat \<Rightarrow> api_service \<Rightarrow> api_service" where
  "WebSocket_close i s =
     (if i < length (sockets s) \<and> sockets s ! i \<noteq> CLOSING \<and> sockets s ! i \<noteq> CLOSED
      then s\<lparr>sockets := (sockets s)[i := CLOSING]\<rparr> else s)"

definition disconnect :: "api_service \<Rightarrow> api_service" where
  "disconnect s = (case ws s of None \<Rightarrow> s | Some i \<Rightarrow> WebSocket_close i s)"

text \<open>
  \<^verbatim>\<open>sendMessage(message)\<close>: \<^verbatim>\<open>ws.send(JSON.stringify({ message }))\<close> when
  \<^verbatim>\<open>this.ws && this.ws.readyState === WebSocket.OPEN\<close>, which \<open>ws_open_socket\<close>
  decides, otherwise a line on the console.
\<close>

definition ws_open_socket :: "api_service \<Rightarrow> nat option" where
  "ws_open_socket s =
     (case ws s of
        None \<Rightarrow> None
      | Some i \<Rightarrow> if i < length (sockets s) \<and> sockets s ! i = OPEN then Some i else None)"

definition sendMessage :: "string \<Rightarrow> page \<Rightarrow> page" where
  "sendMessage m pg =
     (case ws_open_socket (api pg) of
        None \<Rightarrow> pg
      | Some i \<Rightarrow> pg\<lparr>effects := effects pg @ [Ws_send i (JObj [(''message'', JStr m)])]\<rparr>)"

text \<open>
  \<^verbatim>\<open>uploadFile(file)\<close>: the argument is how \<^verbatim>\<open>axios.post\<close> settled, \<open>Inr\<close> with
  \<^verbatim>\<open>response.data\<close> or \<open>Inl\<close> with the rejection, which is logged and thrown again.
\<close>

definition uploadFile :: "js_error + jsval \<Rightarrow> js_error + jsval" where
  "uploadFile posted = (case posted of Inl e \<Rightarrow> Inl e | Inr response_data \<Rightarrow> Inr response_data)"

subsection \<open>The channel as the browser drives it\<close>

text \<open>
  What can happen to the service: the two calls \<^verbatim>\<open>App\<close> makes in its effect (on mount and
  on unmount), the events of a socket, and a pending timeout running. An event is
  enabled as the platform allows it: a socket opens only while connecting, its close
  event is fired once, and only a pending timeout runs. The browser sets the socket's
  \<^verbatim>\<open>readyState\<close> and then runs the handler.
\<close>

datatype api_event =
    Call_connectWebSocket
  | Call_disconnect
  | Socket_open nat
  | Socket_error nat
  | Socket_close nat
  | Timeout nat

definition run_timeout :: "nat \<Rightarrow> api_service \<Rightarrow> api_service" where
  "run_timeout k s = connectWebSocket (s\<lparr>timers := take k (timers s) @ drop (Suc k) (timers s)\<rparr>)"

fun api_step :: "api_event \<Rightarrow> api_service \<Rightarrow> api_service option" where
  "api_step Call_connectWebSocket s = Some (connectWebSocket s)"
| "api_step Call_disconnect s = Some (disconnect s)"
| "api_step (Socket_open i) s =
     (if i < length (sockets s) \<and> sockets s ! i = CONNECTING
      then Some (ws_onopen i (s\<lparr>sockets := (sockets s)[i := OPEN]\<rparr>)) else None)"
| "api_step (Socket_error i) s =
     (if i < length (sockets s) \<and> sockets s ! i \<noteq> CLOSED then Some (ws_onerror i s) else None)"
| "api_step (Socket_close i) s =
     (if i < length (sockets s) \<and> sockets s ! i \<noteq> CLOSED
      then Some (ws_onclose i (s\<lparr>sockets := (sockets s)[i := CLOSED]\<rparr>)) else None)"
| "api_step (Timeout k) s =
     (if k < length (timers s) then Some (run_timeout k s) else None)"

fun api_run :: "api_event list \<Rightarrow> api_service \<Rightarrow> api_service option" where
  "api_run [] s = Some s"
| "api_run (ev # evs) s = (case api_step ev s of None \<Rightarrow> None | Some s' \<Rightarrow> api_run evs s')"

section \<open>The handlers of App and FileUpload\<close>

text \<open>
  The fixed parts of the confirmation text of \<^verbatim>\<open>handleUploadSuccess\<close>, as the bytes of
  their UTF-8 encoding: the text before the summary, the text after it, and the word
  that stands for a missing summary.
\<close>

definition upload_text_before :: string where
  "upload_text_before =
     [CHR 0xE6, CHR 0x96, CHR 0x87, CHR 0xE4, CHR 0xBB, CHR 0xB6, CHR 0xE4, CHR 0xB8,
      CHR 0x8A, CHR 0xE4, CHR 0xBC, CHR 0xA0, CHR 0xE6, CHR 0x88, CHR 0x90, CHR 0xE5,
      CHR 0x8A, CHR 0x9F, CHR 0xEF, CHR 0xBC, CHR 0x81, CHR 0xE6, CHR 0x88, CHR 0x91,
      CHR 0xE5, CHR 0xB7, CHR 0xB2, CHR 0xE7, CHR 0xBB, CHR 0x8F, CHR 0xE5, CHR 0x8A,
      CHR 0xA0, CHR 0xE8, CHR 0xBD, CHR 0xBD, CHR 0xE4, CHR 0xBA, CHR 0x86, CHR 0xE6,
      CHR 0x96, CHR 0x87, CHR 0xE4, CHR 0xBB, CHR 0xB6, CHR 0xEF, CHR 0xBC, CHR 0x8C,
      CHR 0xE5, CHR 0x85, CHR 0xB6, CHR 0xE4, CHR 0xB8, CHR 0xAD, CHR 0xE5, CHR 0x8C,
      CHR 0x85, CHR 0xE5, CHR 0x90, CHR 0xAB, CHR 0x20]"

definition upload_text_after :: string where
  "upload_text_after =
     [CHR 0xE3, CHR 0x80, CHR 0x82, CHR 0xE4, CHR 0xBD, CHR 0xA0, CHR 0xE5, CHR 0x8F,
      CHR 0xAF, CHR 0xE4, CHR 0xBB, CHR 0xA5, CHR 0xE8, CHR 0xAE, CHR 0xA9, CHR 0xE6,
      CHR 0x88, CHR 0x91, CHR 0xE7, CHR 0x94, CHR 0x9F, CHR 0xE6, CHR 0x88, CHR 0x90,
      CHR 0xE5, CHR 0x90, CHR 0x84, CHR 0xE7, CHR 0xA7, CHR 0x8D, CHR 0xE5, CHR 0x9B,
      CHR 0xBE, CHR 0xE8, CHR 0xA1, CHR 0xA8, CHR 0xE4, CHR 0xBA, CHR 0x86, CHR 0xE3,
      CHR 0x80, CHR 0x82]"

definition upload_text_default :: string where
  "upload_text_default =
     [CHR 0xE6, CHR 0x95, CHR 0xB0, CHR 0xE6, CHR 0x8D, CHR 0xAE]"

text \<open>
  A value inside a template literal: a string stands for itself; for any other value the
  conversion is the platform's, the parameter \<open>to_string\<close>.
\<close>

definition interpolate :: "(jsval \<Rightarrow> string) \<Rightarrow> jsval \<Rightarrow> string" where
  "interpolate to_string v = (case v of JStr s \<Rightarrow> s | _ \<Rightarrow> to_string v)"

text \<open>
  \<^verbatim>\<open>handleUploadSuccess(result)\<close>: \<^verbatim>\<open>result.file_path\<close> is read as the argument of
  \<^verbatim>\<open>setUploadedFile\<close>; \<^verbatim>\<open>result.load_result?.response\<close> is read inside the updater of
  \<^verbatim>\<open>setMessages\<close>.
\<close>

definition handleUploadSuccess ::
  "clock \<Rightarrow> (jsval \<Rightarrow> string) \<Rightarrow> jsval \<Rightarrow> page \<Rightarrow> js_error \<times> page + page" where
  "handleUploadSuccess clk to_string result pg =
     (case get_prop result ''file_path'' of
        Inl e \<Rightarrow> Inl (e, pg)
      | Inr file_path \<Rightarrow>
          (let pg1 = setUploadedFile file_path pg in
           case get_prop result ''load_result'' of
             Inl e \<Rightarrow> Inr (setMessages_throws e pg1)
           | Inr load_result \<Rightarrow>
               (let summary = opt_prop load_result ''response'';
                    shown = (if truthy summary then summary else JStr upload_text_default)
                in Inr (setMessages_append
                     \<lparr>msg_id = date_now clk, msg_sender = Assistant,
                      msg_text = JStr (upload_text_before @ interpolate to_string shown
                                        @ upload_text_after),
                      msg_timestamp = new_date clk\<rparr> pg1))))"

definition handleSendMessage :: "clock \<Rightarrow> string \<Rightarrow> page \<Rightarrow> page" where
  "handleSendMessage clk m pg =
     sendMessage m
       (setMessages_append
          \<lparr>msg_id = date_now clk, msg_sender = User, msg_text = JStr m,
           msg_timestamp = new_date clk\<rparr> pg)"

text \<open>
  \<^verbatim>\<open>customRequest\<close> of \<^verbatim>\<open>FileUpload\<close>, from the point where \<^verbatim>\<open>uploadFile\<close> has settled. The
  \<^verbatim>\<open>catch\<close> block shows the fixed notification; \<^verbatim>\<open>onSuccess\<close> and \<^verbatim>\<open>onError\<close> belong to
  antd's \<^verbatim>\<open>Upload\<close> and touch nothing of the page.
\<close>

definition customRequest_catch :: "page \<Rightarrow> page" where
  "customRequest_catch pg = pg\<lparr>effects := effects pg @ [Message_error_upload_failed]\<rparr>"

definition customRequest ::
  "clock \<Rightarrow> (jsval \<Rightarrow> string) \<Rightarrow> js_error + jsval \<Rightarrow> page \<Rightarrow> page" where
  "customRequest clk to_string posted pg =
     (case uploadFile posted of
        Inl e \<Rightarrow> customRequest_catch pg
      | Inr result \<Rightarrow>
          (case get_prop result ''success'' of
             Inl e \<Rightarrow> customRequest_catch pg
           | Inr success \<Rightarrow>
               if truthy success then
                 (let pg1 = pg\<lparr>effects := effects pg @ [Message_success]\<rparr> in
                  case handleUploadSuccess clk to_string result pg1 of
                    Inl (e, pg2) \<Rightarrow> customRequest_catch pg2
                  | Inr pg2 \<Rightarrow> pg2)
               else
                 (case get_prop result ''message'' of
                    Inl e \<Rightarrow> customRequest_catch pg
                  | Inr msg \<Rightarrow> pg\<lparr>effects := effects pg @ [Message_error msg]\<rparr>)))"

section \<open>Sequences of actions\<close>

text \<open>
  The three things that drive the page: a frame arrives on the socket, the user sends a
  chat message, an upload settles. Each comes with the clock readings of its moment.
  \<open>step\<close> is the handler of one action.
\<close>

datatype action =
    Inbound string
  | Send_message string
  | Upload "js_error + jsval"

fun step ::
  "(jsval \<Rightarrow> js_error + jsval) \<Rightarrow> (jsval \<Rightarrow> string) \<Rightarrow> clock \<times> action \<Rightarrow> page
     \<Rightarrow> js_error \<times> page + page" where
  "step parse to_string (clk, Inbound event_data) pg =
     ws_onmessage parse (App_onMessage clk) event_data pg"
| "step parse to_string (clk, Send_message m) pg = Inr (handleSendMessage clk m pg)"
| "step parse to_string (clk, Upload posted) pg = Inr (customRequest clk to_string posted pg)"

text \<open>
  The page after one action: an exception leaves only the handler that threw. The
  browser reports it, the page stays as it was at the throw, and the next event is
  handled.
\<close>

definition page_after :: "js_error \<times> page + page \<Rightarrow> page" where
  "page_after r = (case r of Inl (e, pg') \<Rightarrow> pg' | Inr pg' \<Rightarrow> pg')"

definition after_step ::
  "(jsval \<Rightarrow> js_error + jsval) \<Rightarrow> (jsval \<Rightarrow> string) \<Rightarrow> clock \<times> action \<Rightarrow> page \<Rightarrow> page" where
  "after_step parse to_string a pg = page_after (step parse to_string a pg)"

fun run ::
  "(jsval \<Rightarrow> js_error + jsval) \<Rightarrow> (jsval \<Rightarrow> string) \<Rightarrow> (clock \<times> action) list \<Rightarrow> page
     \<Rightarrow> page" where
  "run parse to_string [] pg = pg"
| "run parse to_string (a # as) pg = run parse to_string as (after_step parse to_string a pg)"

section \<open>Which actions append a message\<close>



section \<open>Concrete inputs\<close>

text \<open>
  Two chart payloads as the backend sends them, the texts
  \<^verbatim>\<open>{"data":[],"layout":{}}\<close> and \<^verbatim>\<open>{"data":[1],"layout":{}}\<close>, and the values they
  decode to.
\<close>

definition sample_chart_text :: string where
  "sample_chart_text =
     ''{'' @ [CHR 0x22] @ ''data'' @ [CHR 0x22] @ '':[],'' @ [CHR 0x22] @ ''layout''
     @ [CHR 0x22] @ '':{}}''"

definition sample_chart :: jsval where
  "sample_chart = JObj [(''data'', JArr []), (''layout'', JObj [])]"

definition other_chart_text :: string where
  "other_chart_text =
     ''{'' @ [CHR 0x22] @ ''data'' @ [CHR 0x22] @ '':[1],'' @ [CHR 0x22]
     @ ''layout'' @ [CHR 0x22] @ '':{}}''"

definition other_chart :: jsval where
  "other_chart = JObj [(''data'', JArr [JNum (Finite 1)]), (''layout'', JObj [])]"

text \<open>The event \<^verbatim>\<open>{type: "response", data: {response: reply, chart_data: chart_data}}\<close>.\<close>

definition response_event :: "jsval \<Rightarrow> jsval \<Rightarrow> jsval" where
  "response_event reply chart_data =
     JObj [(''type'', JStr ''response''),
           (''data'', JObj [(''response'', reply), (''chart_data'', chart_data)])]"

text \<open>
  Two frames as they arrive on the socket, each the JSON text of a response with one of
  the charts above:
  \<^verbatim>\<open>{"type":"response","data":{"response":"first","chart_data":"{\"data\":[],\"layout\":{}}"}}\<close>
  and
  \<^verbatim>\<open>{"type":"response","data":{"response":"second","chart_data":"{\"data\":[1],\"layout\":{}}"}}\<close>.
\<close>

definition first_frame :: string where
  "first_frame =
     ''{'' @ [CHR 0x22] @ ''type'' @ [CHR 0x22] @ '':'' @ [CHR 0x22] @ ''response''
     @ [CHR 0x22] @ '','' @ [CHR 0x22] @ ''data'' @ [CHR 0x22] @ '':{'' @ [CHR 0x22]
     @ ''response'' @ [CHR 0x22] @ '':'' @ [CHR 0x22] @ ''first'' @ [CHR 0x22]
     @ '','' @ [CHR 0x22] @ ''chart_data'' @ [CHR 0x22] @ '':'' @ [CHR 0x22] @ ''{''
     @ [CHR 0x5C, CHR 0x22] @ ''data'' @ [CHR 0x5C, CHR 0x22] @ '':[],''
     @ [CHR 0x5C, CHR 0x22] @ ''layout'' @ [CHR 0x5C, CHR 0x22] @ '':{}}''
     @ [CHR 0x22] @ ''}}''"

definition second_frame :: string where
  "second_frame =
     ''{'' @ [CHR 0x22] @ ''type'' @ [CHR 0x22] @ '':'' @ [CHR 0x22] @ ''response''
     @ [CHR 0x22] @ '','' @ [CHR 0x22] @ ''data'' @ [CHR 0x22] @ '':{'' @ [CHR 0x22]
     @ ''response'' @ [CHR 0x22] @ '':'' @ [CHR 0x22] @ ''second'' @ [CHR 0x22]
     @ '','' @ [CHR 0x22] @ ''chart_data'' @ [CHR 0x22] @ '':'' @ [CHR 0x22] @ ''{''
     @ [CHR 0x5C, CHR 0x22] @ ''data'' @ [CHR 0x5C, CHR 0x22] @ '':[1],''
     @ [CHR 0x5C, CHR 0x22] @ ''layout'' @ [CHR 0x5C, CHR 0x22] @ '':{}}''
     @ [CHR 0x22] @ ''}}''"

text \<open>
  A frame of type \<^verbatim>\<open>response\<close> that carries no data, the text \<^verbatim>\<open>{"type":"response"}\<close>,
  and the value it decodes to.
\<close>

definition dataless_frame :: string where
  "dataless_frame =
     ''{'' @ [CHR 0x22] @ ''type'' @ [CHR 0x22] @ '':'' @ [CHR 0x22] @ ''response''
     @ [CHR 0x22] @ ''}''"

definition dataless_event :: jsval where
  "dataless_event = JObj [(''type'', JStr ''response'')]"

text \<open>
  \<^verbatim>\<open>JSON.parse\<close> on the texts of the examples: the two chart texts and the three frames
  decode to their values; the other texts used there (\<^verbatim>\<open>not json\<close> and \<^verbatim>\<open>{\<close>) are no
  JSON and are rejected.
\<close>

definition sample_parse :: "jsval \<Rightarrow> js_error + jsval" where
  "sample_parse v =
     (if v = JStr sample_chart_text then Inr sample_chart
      else if v = JStr other_chart_text then Inr other_chart
      else if v = JStr first_frame
        then Inr (response_event (JStr ''first'') (JStr sample_chart_text))
      else if v = JStr second_frame
        then Inr (response_event (JStr ''second'') (JStr other_chart_text))
      else if v = JStr dataless_frame then Inr dataless_event
      else Inl SyntaxError)"

text \<open>
  The conversion of a value in a template literal, for the examples: none of them
  converts a value that is not a string.
\<close>

definition sample_to_string :: "jsval \<Rightarrow> string" where
  "sample_to_string v = (case v of JStr s \<Rightarrow> s | _ \<Rightarrow> [])"

definition clock_at :: "int \<Rightarrow> clock" where
  "clock_at t = \<lparr>date_now = t, new_date = t\<rparr>"

text \<open>
  The acknowledgement
  \<^verbatim>\<open>{success: true, file_path: "/tmp/sales.xlsx", load_result: {response: "120 rows, 5 columns"}}\<close>
  and the refusal \<^verbatim>\<open>{success: false, message: "bad file"}\<close> of the upload endpoint.
\<close>

definition sales_ack :: jsval where
  "sales_ack =
     JObj [(''success'', JBool True), (''file_path'', JStr ''/tmp/sales.xlsx''),
           (''load_result'', JObj [(''response'', JStr ''120 rows, 5 columns'')])]"

definition refusal :: jsval where
  "refusal = JObj [(''success'', JBool False), (''message'', JStr ''bad file'')]"




section \<open>The concrete inputs, evaluated\<close>

lemma sample_parse_not_json:
  "sample_parse (JStr ''{'') = Inl SyntaxError"
  "sample_parse (JStr ''not json'') = Inl SyntaxError"
  by (simp_all add: sample_parse_def sample_chart_text_def other_chart_text_def
      first_frame_def second_frame_def dataless_frame_def)

lemma sample_parse_charts:
  "sample_parse (JStr sample_chart_text) = Inr sample_chart"
  "sample_parse (JStr other_chart_text) = Inr other_chart"
  by (simp_all add: sample_parse_def sample_chart_text_def other_chart_text_def)

lemma sample_parse_frames:
  "sample_parse (JStr first_frame) = Inr (response_event (JStr ''first'') (JStr sample_chart_text))"
  "sample_parse (JStr second_frame) = Inr (response_event (JStr ''second'') (JStr other_chart_text))"
  by (simp_all add: sample_parse_def sample_chart_text_def other_chart_text_def
      first_frame_def second_frame_def)


lemma response_event_fields:
  "get_prop (response_event reply chart_data) ''type'' = Inr (JStr ''response'')"
  "get_prop (response_event reply chart_data) ''data''
     = Inr (JObj [(''response'', reply), (''chart_data'', chart_data)])"
  by (simp_all add: response_event_def)






section \<open>The transport channel\<close>

lemma ws_onclose_schedules_once: "timers (ws_onclose i s) = timers s @ [5000]"
  by (simp add: ws_onclose_def)

lemma disconnect_keeps_timers: "timers (disconnect s) = timers s"
  by (simp add: disconnect_def WebSocket_close_def split: option.splits)

lemma close_event_schedules_reconnect:
  "api_step (Socket_close i) s = Some s' \<Longrightarrow> timers s' = timers s @ [5000]"
  by (auto simp: ws_onclose_def split: if_splits)

lemma timeout_connects:
  "api_step (Timeout k) s = Some s' \<Longrightarrow>
     sockets s' = sockets s @ [CONNECTING] \<and> ws s' = Some (length (sockets s))"
  by (auto simp: run_timeout_def connectWebSocket_def split: if_splits)

text \<open>
  C1. After \<^verbatim>\<open>disconnect()\<close> no further connection attempt should be scheduled or made.
  The code does otherwise. The service connects and the socket opens; \<^verbatim>\<open>disconnect()\<close>
  closes the socket; the socket's close event runs \<^verbatim>\<open>onclose\<close>, which schedules the
  5000 ms timeout as it does for any close; the timeout runs \<^verbatim>\<open>connectWebSocket\<close>. At the
  end a second socket exists, is connecting, and is the service's current one.
\<close>

theorem disconnect_is_followed_by_reconnection:
  "api_run [Call_connectWebSocket, Socket_open 0, Call_disconnect, Socket_close 0, Timeout 0]
     initial_api
   = Some \<lparr>ws = Some 1, sockets = [CLOSED, CONNECTING], timers = []\<rparr>"
  by (simp add: initial_api_def connectWebSocket_def disconnect_def WebSocket_close_def
      ws_onopen_def ws_onclose_def run_timeout_def)

section \<open>Inbound frames\<close>

text \<open>
  Two frames that are JSON and still make the callback throw: \<^verbatim>\<open>null\<close>, at \<^verbatim>\<open>data.type\<close>,
  and a response without data, at \<^verbatim>\<open>response.chart_data\<close>, after \<^verbatim>\<open>setMessages\<close> was called
  with an updater that throws as well.
\<close>

lemma App_onMessage_null: "App_onMessage clk JNull pg = Inl (TypeError, pg)"
  by (simp add: App_onMessage_def)

lemma App_onMessage_without_data:
  "App_onMessage clk dataless_event pg = Inl (TypeError, setMessages_throws TypeError pg)"
  by (simp add: App_onMessage_def dataless_event_def)

text \<open>
  C2. No inbound payload should raise an uncaught exception. The code does otherwise for
  a frame that is not JSON: whatever \<^verbatim>\<open>JSON.parse\<close> throws on the frame's text leaves
  \<^verbatim>\<open>onmessage\<close>, which has no handler for it. The page is as it was when it does.
\<close>

theorem onmessage_lets_parse_error_escape:
  "parse (JStr event_data) = Inl e \<Longrightarrow>
     step parse to_string (clk, Inbound event_data) pg = Inl (e, pg)"
  by (simp add: ws_onmessage_def)

theorem onmessage_lets_parse_error_escape_witness:
  "sample_parse (JStr ''{'') = Inl SyntaxError \<and>
   step sample_parse sample_to_string (clock_at 1000, Inbound ''{'') initial_page
     = Inl (SyntaxError, initial_page)"
proof -
  have h: "sample_parse (JStr ''{'') = Inl SyntaxError"
    by (rule sample_parse_not_json)
  show ?thesis
    using h onmessage_lets_parse_error_escape
      [of sample_parse "''{''" SyntaxError sample_to_string "clock_at 1000" initial_page]
    by simp
qed

text \<open>
  What the exception does not do: it ends neither the page nor the socket. A frame that
  is not JSON changes nothing and the actions after it are handled as if it had not
  come; a response without data appends nothing either.
\<close>

lemma frame_that_is_not_json_is_skipped:
  "parse (JStr event_data) = Inl e \<Longrightarrow>
     run parse to_string ((clk, Inbound event_data) # acts) pg = run parse to_string acts pg"
  by (simp add: after_step_def page_after_def ws_onmessage_def)

lemma response_without_data_appends_nothing:
  "parse (JStr event_data) = Inr dataless_event \<Longrightarrow>
     app (after_step parse to_string (clk, Inbound event_data) pg) = app pg"
  by (simp add: after_step_def page_after_def ws_onmessage_def App_onMessage_without_data
      setMessages_throws_def)

section \<open>The chart\<close>

text \<open>
  A truthy value is neither \<^verbatim>\<open>undefined\<close> nor \<^verbatim>\<open>null\<close>, so the read of
  \<^verbatim>\<open>chartData.chart_data\<close> behind \<^verbatim>\<open>!chartData ||\<close> never throws.
\<close>

lemma get_prop_truthy: "truthy v \<Longrightarrow> \<exists>x. get_prop v k = Inr x"
  by (cases v) auto

lemma ChartDisplay_string: "ChartDisplay parse (JStr s) = None"
  by (simp add: ChartDisplay_def)

text \<open>
  C3. An inbound event of type \<^verbatim>\<open>response\<close> whose \<^verbatim>\<open>chart_data\<close> is a (non-empty) string
  makes that string itself the current chart, and neither \<^verbatim>\<open>ChartDisplay\<close> nor the chart
  section of \<^verbatim>\<open>App\<close> draws anything for it: a string has no \<^verbatim>\<open>chart_data\<close> field.
\<close>

theorem chart_string_is_stored_and_never_drawn:
  assumes "get_prop data ''type'' = Inr (JStr ''response'')"
    and "get_prop data ''data'' = Inr response"
    and "get_prop response ''chart_data'' = Inr (JStr s)"
    and "s \<noteq> []"
  shows "\<exists>pg'. App_onMessage clk data pg = Inr pg'
           \<and> currentChart (app pg') = JStr s
           \<and> ChartDisplay parse (currentChart (app pg')) = None
           \<and> chart_section parse (app pg') = None"
proof -
  from assms(3) obtain reply where "get_prop response ''response'' = Inr reply"
    by (cases response) auto
  with assms show ?thesis
    by (simp add: App_onMessage_def Let_def setCurrentChart_def setMessages_append_def
        chart_section_def ChartDisplay_def)
qed

theorem chart_string_is_stored_and_never_drawn_witness:
  "get_prop (response_event (JStr ''ok'') (JStr sample_chart_text)) ''type'' = Inr (JStr ''response'')
   \<and> sample_chart_text \<noteq> []
   \<and> sample_parse (JStr sample_chart_text) = Inr sample_chart
   \<and> (\<exists>pg'. App_onMessage (clock_at 1000) (response_event (JStr ''ok'') (JStr sample_chart_text))
               initial_page = Inr pg'
           \<and> currentChart (app pg') = JStr sample_chart_text
           \<and> ChartDisplay sample_parse (currentChart (app pg')) = None
           \<and> chart_section sample_parse (app pg') = None)"
proof -
  have a: "get_prop (response_event (JStr ''ok'') (JStr sample_chart_text)) ''type''
             = Inr (JStr ''response'')"
    by (simp add: response_event_def)
  have b: "get_prop (response_event (JStr ''ok'') (JStr sample_chart_text)) ''data''
             = Inr (JObj [(''response'', JStr ''ok''), (''chart_data'', JStr sample_chart_text)])"
    by (simp add: response_event_def)
  have c: "get_prop (JObj [(''response'', JStr ''ok''), (''chart_data'', JStr sample_chart_text)])
             ''chart_data'' = Inr (JStr sample_chart_text)"
    by simp
  have d: "sample_chart_text \<noteq> []"
    by (simp add: sample_chart_text_def)
  have e: "sample_parse (JStr sample_chart_text) = Inr sample_chart"
    by (rule sample_parse_charts)
  from chart_string_is_stored_and_never_drawn [OF a b c d, of "clock_at 1000" initial_page sample_parse]
    a d e show ?thesis by simp
qed

text \<open>
  C4. The claim is that an event whose \<^verbatim>\<open>chart_data\<close> cannot be decoded leaves the current
  chart as it was. It does not: the callback stores the value without decoding it. Here
  the chart is \<^verbatim>\<open>null\<close> before the event and the text \<^verbatim>\<open>not json\<close> after it.
\<close>

theorem undecodable_chart_replaces_current_chart:
  "ChartDisplay_try sample_parse (JStr ''not json'') = Inl SyntaxError
   \<and> currentChart (app initial_page) = JNull
   \<and> App_onMessage (clock_at 1000) (response_event (JStr ''ok'') (JStr ''not json'')) initial_page
       = Inr \<lparr>app = \<lparr>messages = [\<lparr>msg_id = 1000, msg_sender = Assistant, msg_text = JStr ''ok'',
                                      msg_timestamp = 1000\<rparr>],
                       currentChart = JStr ''not json'', uploadedFile = JNull\<rparr>,
               api = initial_api,
               effects = [Set_messages \<lparr>msg_id = 1000, msg_sender = Assistant,
                                        msg_text = JStr ''ok'', msg_timestamp = 1000\<rparr>,
                          Set_currentChart (JStr ''not json'')]\<rparr>"
  by (simp add: ChartDisplay_try_def sample_parse_not_json initial_page_def
      initial_app_def App_onMessage_def response_event_def clock_at_def Let_def
      setMessages_append_def setCurrentChart_def)

lemma ChartDisplay_undecodable:
  "ChartDisplay_try parse cd = Inl e \<Longrightarrow> get_prop chartData ''chart_data'' = Inr cd
     \<Longrightarrow> ChartDisplay parse chartData = None"
  by (simp add: ChartDisplay_def)

text \<open>
  C4, as the code has it. An event of type \<^verbatim>\<open>response\<close> whose \<^verbatim>\<open>chart_data\<close> cannot be
  decoded into data and layout appends the reply to the messages and changes nothing
  else of them, leaves the uploaded file alone, and makes that \<^verbatim>\<open>chart_data\<close> the current
  chart when it is truthy (the chart stays as it was when it is falsy). The failure
  shows only when drawing: \<^verbatim>\<open>ChartDisplay\<close>, given a chart object with this \<^verbatim>\<open>chart_data\<close>,
  returns nothing and throws nothing.
\<close>

theorem undecodable_chart_is_stored_and_not_drawn:
  assumes "get_prop data ''type'' = Inr (JStr ''response'')"
    and "get_prop data ''data'' = Inr response"
    and "get_prop response ''response'' = Inr reply"
    and "get_prop response ''chart_data'' = Inr cd"
    and "ChartDisplay_try parse cd = Inl e"
  shows "\<exists>pg'. App_onMessage clk data pg = Inr pg'
           \<and> messages (app pg') = messages (app pg) @
                 [\<lparr>msg_id = date_now clk, msg_sender = Assistant, msg_text = reply,
                   msg_timestamp = new_date clk\<rparr>]
           \<and> currentChart (app pg') = (if truthy cd then cd else currentChart (app pg))
           \<and> uploadedFile (app pg') = uploadedFile (app pg)
           \<and> ChartDisplay parse (JObj [(''chart_data'', cd)]) = None"
  using assms
  by (simp add: App_onMessage_def Let_def setMessages_append_def setCurrentChart_def
      ChartDisplay_def)
theorem undecodable_chart_is_stored_and_not_drawn_witness:
  "get_prop (response_event (JStr ''ok'') (JStr ''not json'')) ''type'' = Inr (JStr ''response'')
   \<and> ChartDisplay_try sample_parse (JStr ''not json'') = Inl SyntaxError
   \<and> (\<exists>pg'. App_onMessage (clock_at 1000) (response_event (JStr ''ok'') (JStr ''not json''))
               initial_page = Inr pg'
           \<and> messages (app pg') =
                 [\<lparr>msg_id = 1000, msg_sender = Assistant, msg_text = JStr ''ok'',
                   msg_timestamp = 1000\<rparr>]
           \<and> currentChart (app pg') = JStr ''not json''
           \<and> uploadedFile (app pg') = JNull
           \<and> ChartDisplay sample_parse (JObj [(''chart_data'', JStr ''not json'')]) = None)"
proof -
  let ?response = "JObj [(''response'', JStr ''ok''), (''chart_data'', JStr ''not json'')]"
  have a: "get_prop (response_event (JStr ''ok'') (JStr ''not json'')) ''type''
             = Inr (JStr ''response'')"
    by (simp add: response_event_def)
  have b: "get_prop (response_event (JStr ''ok'') (JStr ''not json'')) ''data'' = Inr ?response"
    by (simp add: response_event_def)
  have c: "get_prop ?response ''response'' = Inr (JStr ''ok'')"
    by simp
  have d: "get_prop ?response ''chart_data'' = Inr (JStr ''not json'')"
    by simp
  have e: "ChartDisplay_try sample_parse (JStr ''not json'') = Inl SyntaxError"
    by (simp add: ChartDisplay_try_def sample_parse_not_json)
  from undecodable_chart_is_stored_and_not_drawn [OF a b c d e, of "clock_at 1000" initial_page]
    a e show ?thesis
    by (simp add: clock_at_def initial_page_def initial_app_def)
qed

text \<open>
  C7. Of two successive response frames that each carry a (truthy) \<^verbatim>\<open>chart_data\<close>, the
  first makes its payload the current chart and the second replaces it: after both, the
  current chart is the second payload and nothing else.
\<close>

theorem second_chart_replaces_first:
  assumes "parse (JStr t1) = Inr d1"
    and "get_prop d1 ''type'' = Inr (JStr ''response'')"
    and "get_prop d1 ''data'' = Inr r1"
    and "get_prop r1 ''chart_data'' = Inr c1"
    and "truthy c1"
    and "parse (JStr t2) = Inr d2"
    and "get_prop d2 ''type'' = Inr (JStr ''response'')"
    and "get_prop d2 ''data'' = Inr r2"
    and "get_prop r2 ''chart_data'' = Inr c2"
    and "truthy c2"
  shows "\<exists>pg1 pg2. step parse to_string (k1, Inbound t1) pg = Inr pg1
           \<and> currentChart (app pg1) = c1
           \<and> step parse to_string (k2, Inbound t2) pg1 = Inr pg2
           \<and> run parse to_string [(k1, Inbound t1), (k2, Inbound t2)] pg = pg2
           \<and> currentChart (app pg2) = c2"
proof -
  from assms(4) obtain x1 where x1: "get_prop r1 ''response'' = Inr x1"
    by (cases r1) auto
  from assms(9) obtain x2 where x2: "get_prop r2 ''response'' = Inr x2"
    by (cases r2) auto
  from assms x1 x2 show ?thesis
    by (simp add: after_step_def page_after_def ws_onmessage_def App_onMessage_def Let_def
        setMessages_append_def setCurrentChart_def)
qed

theorem second_chart_replaces_first_witness:
  "sample_parse (JStr first_frame) = Inr (response_event (JStr ''first'') (JStr sample_chart_text))
   \<and> sample_parse (JStr second_frame) = Inr (response_event (JStr ''second'') (JStr other_chart_text))
   \<and> truthy (JStr sample_chart_text) \<and> truthy (JStr other_chart_text)
   \<and> (\<exists>pg1 pg2.
         step sample_parse sample_to_string (clock_at 1000, Inbound first_frame) initial_page = Inr pg1
         \<and> currentChart (app pg1) = JStr sample_chart_text
         \<and> step sample_parse sample_to_string (clock_at 2000, Inbound second_frame) pg1 = Inr pg2
         \<and> run sample_parse sample_to_string
               [(clock_at 1000, Inbound first_frame), (clock_at 2000, Inbound second_frame)]
               initial_page = pg2
         \<and> currentChart (app pg2) = JStr other_chart_text)"
proof -
  have c1: "get_prop (JObj [(''response'', JStr ''first''), (''chart_data'', JStr sample_chart_text)])
              ''chart_data'' = Inr (JStr sample_chart_text)"
    by simp
  have c2: "get_prop (JObj [(''response'', JStr ''second''), (''chart_data'', JStr other_chart_text)])
              ''chart_data'' = Inr (JStr other_chart_text)"
    by simp
  have t1: "truthy (JStr sample_chart_text)"
    by (simp add: sample_chart_text_def)
  have t2: "truthy (JStr other_chart_text)"
    by (simp add: other_chart_text_def)
  from second_chart_replaces_first
         [OF sample_parse_frames(1) response_event_fields c1 t1
             sample_parse_frames(2) response_event_fields c2 t2,
          of sample_to_string "clock_at 1000" initial_page "clock_at 2000"]
    sample_parse_frames t1 t2
  show ?thesis by simp
qed

section \<open>Sending a chat message\<close>

text \<open>
  The channel has closed and its reconnection is pending; the user sends
  \<^verbatim>\<open>plot monthly revenue\<close>. One user message is appended and nothing is sent.
\<close>

lemma send_on_closed_channel:
  "handleSendMessage (clock_at 1000) ''plot monthly revenue''
     (initial_page\<lparr>api := \<lparr>ws = Some 0, sockets = [CLOSED], timers = [5000]\<rparr>\<rparr>)
   = \<lparr>app = \<lparr>messages = [\<lparr>msg_id = 1000, msg_sender = User,
                              msg_text = JStr ''plot monthly revenue'', msg_timestamp = 1000\<rparr>],
               currentChart = JNull, uploadedFile = JNull\<rparr>,
       api = \<lparr>ws = Some 0, sockets = [CLOSED], timers = [5000]\<rparr>,
       effects = [Set_messages \<lparr>msg_id = 1000, msg_sender = User,
                                msg_text = JStr ''plot monthly revenue'',
                                msg_timestamp = 1000\<rparr>]\<rparr>"
  by (simp add: handleSendMessage_def sendMessage_def ws_open_socket_def setMessages_append_def
      clock_at_def initial_page_def initial_app_def)

text \<open>
  C5. \<^verbatim>\<open>handleSendMessage\<close> appends exactly one user message with the text sent, whatever
  the state of the connection, and it does so before anything is sent. When \<^verbatim>\<open>this.ws\<close>
  is unset or not open nothing is sent; when it is open the one frame
  \<^verbatim>\<open>{message: m}\<close> follows the append. The chart, the uploaded file and the service are
  untouched, and the handler always returns.
\<close>

theorem user_message_appended_then_sent:
  "messages (app (handleSendMessage clk m pg)) = messages (app pg) @
       [\<lparr>msg_id = date_now clk, msg_sender = User, msg_text = JStr m,
         msg_timestamp = new_date clk\<rparr>]
   \<and> effects (handleSendMessage clk m pg) = effects pg @
       Set_messages \<lparr>msg_id = date_now clk, msg_sender = User, msg_text = JStr m,
                     msg_timestamp = new_date clk\<rparr>
       # (case ws_open_socket (api pg) of
            None \<Rightarrow> []
          | Some i \<Rightarrow> [Ws_send i (JObj [(''message'', JStr m)])])
   \<and> currentChart (app (handleSendMessage clk m pg)) = currentChart (app pg)
   \<and> uploadedFile (app (handleSendMessage clk m pg)) = uploadedFile (app pg)
   \<and> api (handleSendMessage clk m pg) = api pg"
  by (simp add: handleSendMessage_def sendMessage_def setMessages_append_def
      split: option.splits)

section \<open>Uploading a file\<close>

text \<open>
  C6. When the upload is acknowledged with a truthy \<^verbatim>\<open>success\<close>, a file path \<open>r\<close> and a
  summary string \<open>s\<close>, \<^verbatim>\<open>customRequest\<close> shows the success notification, then sets the
  uploaded file to \<open>r\<close>, then appends exactly one assistant message, whose text
  contains \<open>s\<close>.
\<close>

theorem upload_success_records_file_then_confirms:
  assumes "get_prop result ''success'' = Inr flag"
    and "truthy flag"
    and "get_prop result ''file_path'' = Inr r"
    and "get_prop result ''load_result'' = Inr load_result"
    and "opt_prop load_result ''response'' = JStr s"
  shows "\<exists>t. sublist s t
           \<and> uploadedFile (app (customRequest clk to_string (Inr result) pg)) = r
           \<and> messages (app (customRequest clk to_string (Inr result) pg)) = messages (app pg) @
                 [\<lparr>msg_id = date_now clk, msg_sender = Assistant, msg_text = JStr t,
                   msg_timestamp = new_date clk\<rparr>]
           \<and> currentChart (app (customRequest clk to_string (Inr result) pg))
                 = currentChart (app pg)
           \<and> effects (customRequest clk to_string (Inr result) pg) = effects pg @
                 [Message_success, Set_uploadedFile r,
                  Set_messages \<lparr>msg_id = date_now clk, msg_sender = Assistant,
                                msg_text = JStr t, msg_timestamp = new_date clk\<rparr>]"
proof -
  let ?t = "upload_text_before @ (if s = [] then upload_text_default else s) @ upload_text_after"
  have "sublist s ?t"
    by (cases "s = []") (auto simp: sublist_def)
  moreover have "customRequest clk to_string (Inr result) pg =
      setMessages_append \<lparr>msg_id = date_now clk, msg_sender = Assistant, msg_text = JStr ?t,
                          msg_timestamp = new_date clk\<rparr>
        (setUploadedFile r (pg\<lparr>effects := effects pg @ [Message_success]\<rparr>))"
    using assms
    by (simp add: customRequest_def uploadFile_def handleUploadSuccess_def Let_def
        interpolate_def)
  ultimately show ?thesis
    by (intro exI [of _ ?t]) (simp add: setMessages_append_def setUploadedFile_def)
qed

theorem upload_success_records_file_then_confirms_witness:
  "get_prop sales_ack ''success'' = Inr (JBool True) \<and> truthy (JBool True)
   \<and> (\<exists>t. sublist ''120 rows, 5 columns'' t
          \<and> uploadedFile (app (customRequest (clock_at 1000) sample_to_string (Inr sales_ack)
                                 initial_page)) = JStr ''/tmp/sales.xlsx''
          \<and> messages (app (customRequest (clock_at 1000) sample_to_string (Inr sales_ack)
                               initial_page)) =
                [\<lparr>msg_id = 1000, msg_sender = Assistant, msg_text = JStr t,
                  msg_timestamp = 1000\<rparr>]
          \<and> currentChart (app (customRequest (clock_at 1000) sample_to_string (Inr sales_ack)
                                 initial_page)) = JNull
          \<and> effects (customRequest (clock_at 1000) sample_to_string (Inr sales_ack) initial_page) =
                [Message_success, Set_uploadedFile (JStr ''/tmp/sales.xlsx''),
                 Set_messages \<lparr>msg_id = 1000, msg_sender = Assistant, msg_text = JStr t,
                               msg_timestamp = 1000\<rparr>])"
proof -
  have a: "get_prop sales_ack ''success'' = Inr (JBool True)"
    by (simp add: sales_ack_def)
  have b: "truthy (JBool True)"
    by simp
  have c: "get_prop sales_ack ''file_path'' = Inr (JStr ''/tmp/sales.xlsx'')"
    by (simp add: sales_ack_def)
  have d: "get_prop sales_ack ''load_result''
             = Inr (JObj [(''response'', JStr ''120 rows, 5 columns'')])"
    by (simp add: sales_ack_def)
  have e: "opt_prop (JObj [(''response'', JStr ''120 rows, 5 columns'')]) ''response''
             = JStr ''120 rows, 5 columns''"
    by simp
  from upload_success_records_file_then_confirms
         [OF a b c d e, of "clock_at 1000" sample_to_string initial_page]
    a b show ?thesis
    by (simp add: clock_at_def initial_page_def initial_app_def)
qed

lemma get_prop_opt_prop: "get_prop v k = Inr x \<Longrightarrow> x = opt_prop v k"
  by (cases v) auto

text \<open>
  C8. When the upload fails, by a rejected request or by an answer whose \<^verbatim>\<open>success\<close> is
  falsy, the messages, the chart and the uploaded file are as they were, and so is the
  service; the one thing that happens is an error notification.
\<close>

theorem failed_upload_leaves_session_store:
  assumes "posted = Inl e
           \<or> (posted = Inr result \<and> get_prop result ''success'' = Inr flag \<and> \<not> truthy flag)"
  shows "app (customRequest clk to_string posted pg) = app pg
         \<and> api (customRequest clk to_string posted pg) = api pg
         \<and> effects (customRequest clk to_string posted pg) = effects pg @
              [case posted of
                 Inl rejection \<Rightarrow> Message_error_upload_failed
               | Inr refused \<Rightarrow> Message_error (opt_prop refused ''message'')]"
  using assms
proof
  assume "posted = Inl e"
  then show ?thesis
    by (simp add: customRequest_def uploadFile_def customRequest_catch_def)
next
  assume r: "posted = Inr result \<and> get_prop result ''success'' = Inr flag \<and> \<not> truthy flag"
  then obtain shown where m: "get_prop result ''message'' = Inr shown"
    by (cases result) auto
  with r show ?thesis
    by (simp add: customRequest_def uploadFile_def get_prop_opt_prop [OF m, symmetric])
qed

theorem failed_upload_leaves_session_store_witness:
  "get_prop refusal ''success'' = Inr (JBool False) \<and> \<not> truthy (JBool False)
   \<and> app (customRequest (clock_at 1000) sample_to_string (Inl AxiosError) initial_page) = initial_app
   \<and> effects (customRequest (clock_at 1000) sample_to_string (Inl AxiosError) initial_page)
        = [Message_error_upload_failed]
   \<and> app (customRequest (clock_at 1000) sample_to_string (Inr refusal) initial_page) = initial_app
   \<and> effects (customRequest (clock_at 1000) sample_to_string (Inr refusal) initial_page)
        = [Message_error (JStr ''bad file'')]"
proof -
  have a: "get_prop refusal ''success'' = Inr (JBool False)"
    by (simp add: refusal_def)
  have b: "\<not> truthy (JBool False)"
    by simp
  have c: "opt_prop refusal ''message'' = JStr ''bad file''"
    by (simp add: refusal_def)
  have "Inl AxiosError = (Inl AxiosError :: js_error + jsval)
          \<or> ((Inl AxiosError :: js_error + jsval) = Inr refusal
              \<and> get_prop refusal ''success'' = Inr (JBool False) \<and> \<not> truthy (JBool False))"
    by simp
  note t = failed_upload_leaves_session_store
             [OF this, of "clock_at 1000" sample_to_string initial_page]
  have "Inr refusal = (Inl AxiosError :: js_error + jsval)
          \<or> ((Inr refusal :: js_error + jsval) = Inr refusal
              \<and> get_prop refusal ''success'' = Inr (JBool False) \<and> \<not> truthy (JBool False))"
    using a by simp
  note s = failed_upload_leaves_session_store
             [OF this, of "clock_at 1000" sample_to_string initial_page]
  from t s a b c show ?thesis
    by (simp add: initial_page_def)
qed

section \<open>The conversation\<close>










end
